theory Spec2Isabelle
  imports Complex_Main
begin

section \<open>Go values: errors, panics, decoded JSON, time\<close>

text \<open>
  The client decodes loosely typed JSON with \<^verbatim>\<open>encoding/json\<close> into
  \<^verbatim>\<open>interface{}\<close> values and then type-asserts its way through them. A Go
  function of the package ends in one of two ways: it returns its result values (an
  \<^verbatim>\<open>error\<close> result may be nil or not), or it panics (a failed unchecked type
  assertion, an index out of range, a nil dereference). Both are values of the model.
\<close>

datatype num_err = ErrSyntax | ErrRange

text \<open>
  The error values the package builds or passes on: \<^verbatim>\<open>errors.New(msg)\<close>,
  a \<^verbatim>\<open>*strconv.NumError{Func, Num, Err}\<close>, \<^verbatim>\<open>errors.Wrap(err, msg)\<close>
  of a non-nil error, an error of \<^verbatim>\<open>encoding/json\<close>, and a transport error
  that may or may not implement \<^verbatim>\<open>Temporary() bool\<close>;
  \<^verbatim>\<open>fmt.Errorf("msg: %w", err)\<close> is \<open>Errorf msg err\<close>.
\<close>

datatype goerror =
    ErrorsNew string
  | NumError string string num_err
  | Wrapped goerror string
  | JsonError string
  | Errorf string goerror
  | TransportError string "bool option"

datatype panic =
    InterfaceConversion string
  | IndexOutOfRange nat nat
  | NilDereference

datatype 'a result = Return 'a | Panic panic

text \<open>
  \<^verbatim>\<open>errors.Wrap\<close> of \<^verbatim>\<open>github.com/pkg/errors\<close>: "If err is nil, Wrap
  returns nil."
\<close>

fun errors_Wrap :: "goerror option \<Rightarrow> string \<Rightarrow> goerror option" where
  "errors_Wrap None message = None"
| "errors_Wrap (Some err) message = Some (Wrapped err message)"

text \<open>
  What \<^verbatim>\<open>json.Unmarshal\<close> stores in an \<^verbatim>\<open>interface{}\<close>: nil, bool,
  float64, string, \<^verbatim>\<open>[]interface{}\<close> or \<^verbatim>\<open>map[string]interface{}\<close>. The
  type \<open>'f\<close> stands for float64, whose values are left abstract.
\<close>

datatype 'f json =
    JNull
  | JBool bool
  | JNumber 'f
  | JString string
  | JArray "'f json list"
  | JObject "(string \<times> 'f json) list"

text \<open>
  A decoded \<^verbatim>\<open>map[string]interface{}\<close> is the list of its entries, read with
  \<open>map_of\<close>. Indexing a Go map gives the zero value (a nil interface) for a missing
  key.
\<close>

definition lookup :: "(string \<times> 'f json) list \<Rightarrow> string \<Rightarrow> 'f json" where
  "lookup m k = (case map_of m k of None \<Rightarrow> JNull | Some v \<Rightarrow> v)"

text \<open>The unchecked type assertions \<^verbatim>\<open>x.(string)\<close>, \<^verbatim>\<open>x.([]interface{})\<close>
  and \<^verbatim>\<open>x.(map[string]interface{})\<close>, and the slice index \<^verbatim>\<open>xs[i]\<close>.\<close>

fun assertString :: "'f json \<Rightarrow> string result" where
  "assertString (JString s) = Return s"
| "assertString v = Panic (InterfaceConversion ''string'')"

fun assertSlice :: "'f json \<Rightarrow> 'f json list result" where
  "assertSlice (JArray xs) = Return xs"
| "assertSlice v = Panic (InterfaceConversion ''[]interface {}'')"

fun assertMap :: "'f json \<Rightarrow> (string \<times> 'f json) list result" where
  "assertMap (JObject m) = Return m"
| "assertMap v = Panic (InterfaceConversion ''map[string]interface {}'')"

definition index :: "'a list \<Rightarrow> nat \<Rightarrow> 'a result" where
  "index xs i = (if i < length xs then Return (xs ! i) else Panic (IndexOutOfRange i (length xs)))"

fun bind :: "'a result \<Rightarrow> ('a \<Rightarrow> 'b result) \<Rightarrow> 'b result" where
  "bind (Return x) f = f x"
| "bind (Panic p) f = Panic p"

subsection \<open>strconv.ParseInt(s, 10, 64)\<close>

text \<open>
  The standard library's decimal parser, as its source reads for base 10 and 64 bits:
  an optional sign, then at least one digit and nothing else (a syntax error otherwise);
  the unsigned scan stops with a range error as soon as the value leaves uint64, and
  the signed result must lie in int64.
\<close>

definition digit :: "char \<Rightarrow> nat option" where
  "digit c =
     (let n = (of_char c :: nat)
      in if of_char CHR ''0'' \<le> n \<and> n \<le> of_char CHR ''9''
         then Some (n - of_char CHR ''0'') else None)"

fun scanUint :: "string \<Rightarrow> nat \<Rightarrow> num_err + nat" where
  "scanUint [] n = Inr n"
| "scanUint (c # cs) n =
     (case digit c of
        None \<Rightarrow> Inl ErrSyntax
      | Some d \<Rightarrow>
          if n \<ge> (2 ^ 64 - 1) div 10 + 1 then Inl ErrRange
          else if n * 10 + d > 2 ^ 64 - 1 then Inl ErrRange
          else scanUint cs (n * 10 + d))"

definition ParseUint :: "string \<Rightarrow> num_err + nat" where
  "ParseUint s = (if s = [] then Inl ErrSyntax else scanUint s 0)"

definition ParseInt :: "string \<Rightarrow> goerror + int" where
  "ParseInt s0 =
     (if s0 = [] then Inl (NumError ''ParseInt'' s0 ErrSyntax)
      else
        let neg = (hd s0 = CHR ''-'');
            s = (if hd s0 = CHR ''+'' \<or> hd s0 = CHR ''-'' then tl s0 else s0)
        in case ParseUint s of
             Inl ErrSyntax \<Rightarrow> Inl (NumError ''ParseInt'' s0 ErrSyntax)
           | Inl ErrRange \<Rightarrow> Inl (NumError ''ParseInt'' s0 ErrRange)
           | Inr un \<Rightarrow>
               if \<not> neg \<and> un \<ge> 2 ^ 63 then Inl (NumError ''ParseInt'' s0 ErrRange)
               else if neg \<and> un > 2 ^ 63 then Inl (NumError ''ParseInt'' s0 ErrRange)
               else Inr (if neg then - int un else int un))"

subsection \<open>time.Time\<close>

text \<open>
  An instant is a count of whole seconds since the Unix epoch and the nanoseconds
  within that second; the location a \<^verbatim>\<open>time.Time\<close> also carries plays no part
  here. \<^verbatim>\<open>t.Unix()\<close> drops the nanoseconds, \<^verbatim>\<open>time.Unix(s, 0)\<close> is the start
  of second \<open>s\<close>, and the zero \<^verbatim>\<open>time.Time{}\<close> is January 1 of year 1, UTC.
\<close>

record gotime =
  sec :: int
  nsec :: nat

definition Unix :: "gotime \<Rightarrow> int" where
  "Unix t = sec t"

definition time_Unix :: "int \<Rightarrow> gotime" where
  "time_Unix s = \<lparr>sec = s, nsec = 0\<rparr>"

definition zeroTime :: gotime where
  "zeroTime = \<lparr>sec = - 62135596800, nsec = 0\<rparr>"

definition notAfter :: "gotime \<Rightarrow> gotime \<Rightarrow> bool" where
  "notAfter t u = (sec t < sec u \<or> (sec t = sec u \<and> nsec t \<le> nsec u))"

section \<open>The data model (bitstamp.go)\<close>

record 'f Order =
  Price :: 'f
  Amount :: 'f

record 'f OrderBook =
  Time :: gotime
  Asks :: "'f Order list"
  Bids :: "'f Order list"

text \<open>The fields of \<^verbatim>\<open>Trade\<close> carry the type's name, since \<^verbatim>\<open>Price\<close>,
  \<^verbatim>\<open>Amount\<close> and \<^verbatim>\<open>Time\<close> are fields of the records above already.\<close>

record 'f Trade =
  TradeTime :: gotime
  TradeID :: string
  TradePrice :: 'f
  TradeAmount :: 'f

section \<open>parseOrderBook\<close>

text \<open>
  The library calls are parameters: \<open>um\<close> is \<^verbatim>\<open>json.Unmarshal\<close> into a
  \<^verbatim>\<open>map[string]interface{}\<close>, \<open>pf\<close> is \<^verbatim>\<open>strconv.ParseFloat(_, 64)\<close>, and
  \<open>now\<close> is what \<^verbatim>\<open>time.Now()\<close> returns in this call.

  Lines 124 to 135: the default is the clock's second; a \<^verbatim>\<open>timestamp\<close> key that is
  present must hold a string (the checked assertion), which \<^verbatim>\<open>ParseInt\<close> must accept.
\<close>

definition parseTimestamp :: "gotime \<Rightarrow> (string \<times> 'f json) list \<Rightarrow> goerror + int" where
  "parseTimestamp now defaultstruct =
     (let timestamp = Unix now in
      case map_of defaultstruct ''timestamp'' of
        None \<Rightarrow> Inr timestamp
      | Some timestampObj \<Rightarrow>
          (case timestampObj of
             JString timestampStr \<Rightarrow>
               (case ParseInt timestampStr of
                  Inl err \<Rightarrow> Inl err
                | Inr ts \<Rightarrow> Inr ts)
           | _ \<Rightarrow> Inl (ErrorsNew ''invalid timestamp'')))"

text \<open>
  The closure \<^verbatim>\<open>parse\<close>: for each element, assert a slice, take entry 0 as a string
  and parse it, then entry 1; the first parse error returns \<^verbatim>\<open>nil, err\<close>. The
  accumulator is the closure's \<^verbatim>\<open>result\<close>.
\<close>

fun parse :: "(string \<Rightarrow> goerror + 'f) \<Rightarrow> 'f json list \<Rightarrow> 'f Order list
    \<Rightarrow> ('f Order list \<times> goerror option) result" where
  "parse pf [] result = Return (result, None)"
| "parse pf (elem # arr) result =
     bind (assertSlice elem) (\<lambda>ord.
     bind (index ord 0) (\<lambda>o0.
     bind (assertString o0) (\<lambda>ps.
       case pf ps of
         Inl err \<Rightarrow> Return ([], Some err)
       | Inr price \<Rightarrow>
           bind (index ord 1) (\<lambda>o1.
           bind (assertString o1) (\<lambda>as.
             case pf as of
               Inl err \<Rightarrow> Return ([], Some err)
             | Inr amount \<Rightarrow>
                 parse pf arr (result @ [\<lparr>Price = price, Amount = amount\<rparr>]))))))"

text \<open>Lines 159 to 171, shared by both variants of the function.\<close>

definition parseSides :: "(string \<Rightarrow> goerror + 'f) \<Rightarrow> int \<Rightarrow> 'f json list \<Rightarrow> 'f json list
    \<Rightarrow> ('f OrderBook option \<times> goerror option) result" where
  "parseSides pf timestamp bids asks =
     bind (parse pf bids []) (\<lambda>(parsedBids, err).
       case err of
         Some e \<Rightarrow> Return (None, errors_Wrap (Some e) ''bids parsing error'')
       | None \<Rightarrow>
           bind (parse pf asks []) (\<lambda>(parsedAsks, err).
             case err of
               Some e \<Rightarrow> Return (None, errors_Wrap (Some e) ''asks parsing error'')
             | None \<Rightarrow>
                 Return (Some \<lparr>Time = time_Unix timestamp, Asks = parsedAsks, Bids = parsedBids\<rparr>,
                         None)))"

text \<open>\<^verbatim>\<open>parseOrderBook\<close> of src/bitstamp.go: the two sides are taken with unchecked
  assertions, bids first.\<close>

definition parseOrderBook :: "(string \<Rightarrow> goerror + (string \<times> 'f json) list)
    \<Rightarrow> (string \<Rightarrow> goerror + 'f) \<Rightarrow> gotime \<Rightarrow> string
    \<Rightarrow> ('f OrderBook option \<times> goerror option) result" where
  "parseOrderBook um pf now data =
     (case um data of
        Inl err \<Rightarrow> Return (None, Some err)
      | Inr defaultstruct \<Rightarrow>
          (case parseTimestamp now defaultstruct of
             Inl err \<Rightarrow> Return (None, Some err)
           | Inr timestamp \<Rightarrow>
               bind (assertSlice (lookup defaultstruct ''bids'')) (\<lambda>bids.
               bind (assertSlice (lookup defaultstruct ''asks'')) (\<lambda>asks.
                 parseSides pf timestamp bids asks))))"

text \<open>
  \<^verbatim>\<open>parseOrderBook\<close> of the second variant (src/unnamed/part_000): the assertions are
  checked, and a failed one returns \<^verbatim>\<open>nil, errors.Wrap(err, "... interface convert
  error")\<close>. The variable \<^verbatim>\<open>err\<close> is nil there: the function has returned on every
  non-nil value assigned to it before.
\<close>

definition parseOrderBook_ws :: "(string \<Rightarrow> goerror + (string \<times> 'f json) list)
    \<Rightarrow> (string \<Rightarrow> goerror + 'f) \<Rightarrow> gotime \<Rightarrow> string
    \<Rightarrow> ('f OrderBook option \<times> goerror option) result" where
  "parseOrderBook_ws um pf now data =
     (case um data of
        Inl err \<Rightarrow> Return (None, Some err)
      | Inr defaultstruct \<Rightarrow>
          (case parseTimestamp now defaultstruct of
             Inl err \<Rightarrow> Return (None, Some err)
           | Inr timestamp \<Rightarrow>
               (let err = None in
                case lookup defaultstruct ''bids'' of
                  JArray bids \<Rightarrow>
                    (case lookup defaultstruct ''asks'' of
                       JArray asks \<Rightarrow> parseSides pf timestamp bids asks
                     | _ \<Rightarrow> Return (None, errors_Wrap err ''asks interface convert error''))
                | _ \<Rightarrow> Return (None, errors_Wrap err ''bids interface convert error''))))"

text \<open>
  A reference instance of the \<open>pf\<close> parameter for evaluation: plain decimal literals
  (an optional minus sign, digits, and optionally a point followed by digits) read as
  rationals, everything else a syntax error. It accepts less than \<^verbatim>\<open>ParseFloat\<close>
  does (no exponent, no \<^verbatim>\<open>inf\<close>, no bare point) and agrees with it on a literal it
  accepts whose value is a float64, and on text with no digit in it.
\<close>

fun scanDigits :: "string \<Rightarrow> nat \<Rightarrow> nat option" where
  "scanDigits [] n = Some n"
| "scanDigits (c # cs) n =
     (case digit c of None \<Rightarrow> None | Some d \<Rightarrow> scanDigits cs (n * 10 + d))"

definition decimal :: "string \<Rightarrow> goerror + rat" where
  "decimal s0 =
     (let neg = (s0 \<noteq> [] \<and> hd s0 = CHR ''-'');
          s = (if neg then tl s0 else s0);
          ip = takeWhile (\<lambda>c. c \<noteq> CHR ''.'') s;
          fp = drop (Suc (length ip)) s
      in if ip = [] \<or> (fp = [] \<and> length ip < length s) then Inl (NumError ''ParseFloat'' s0 ErrSyntax)
         else case (scanDigits ip 0, scanDigits fp 0) of
                (Some i, Some f) \<Rightarrow>
                  Inr ((if neg then - 1 else 1) * (of_nat i + of_nat f / 10 ^ length fp))
              | _ \<Rightarrow> Inl (NumError ''ParseFloat'' s0 ErrSyntax))"

text \<open>
  A reference instance of the \<open>um\<close> parameter for evaluation: a finite table from
  wire texts to the documents \<^verbatim>\<open>json.Unmarshal\<close> decodes them to; any other text
  is a syntax error.
\<close>

definition unmarshalTable :: "(string \<times> 'a) list \<Rightarrow> string \<Rightarrow> goerror + 'a" where
  "unmarshalTable tab data =
     (case map_of tab data of
        Some d \<Rightarrow> Inr d
      | None \<Rightarrow> Inl (JsonError ''invalid character''))"

section \<open>GetOrderBook\<close>

text \<open>\<open>httpGet\<close> stands for \<^verbatim>\<open>http.Get\<close> followed by reading the whole body.\<close>

definition API_URL :: string where
  "API_URL = ''https://www.bitstamp.net/api/v2''"

definition api_get :: "(string \<Rightarrow> goerror + string) \<Rightarrow> string \<Rightarrow> goerror + string" where
  "api_get httpGet url = httpGet (API_URL @ url)"

definition GetOrderBook :: "(string \<Rightarrow> goerror + string)
    \<Rightarrow> (string \<Rightarrow> goerror + (string \<times> 'f json) list)
    \<Rightarrow> (string \<Rightarrow> goerror + 'f) \<Rightarrow> gotime \<Rightarrow> string
    \<Rightarrow> ('f OrderBook option \<times> goerror option) result" where
  "GetOrderBook httpGet um pf now symbol =
     (case api_get httpGet (''/order_book/'' @ symbol) of
        Inl err \<Rightarrow> Return (None, Some err)
      | Inr body \<Rightarrow> parseOrderBook um pf now body)"

section \<open>formatTrades\<close>

text \<open>The zero \<^verbatim>\<open>Trade\<close> that \<^verbatim>\<open>make([]Trade, n)\<close> fills the slice with.\<close>

definition zeroTrade :: "'f::zero Trade" where
  "zeroTrade = \<lparr>TradeTime = zeroTime, TradeID = [], TradePrice = 0, TradeAmount = 0\<rparr>"

text \<open>
  The body of the loop (lines 238 to 258) for one element: every field is taken with an
  unchecked assertion; the parse errors of price, amount and date are returned, in
  this order. \<open>Inl err\<close> is the loop's \<^verbatim>\<open>return trades, err\<close>.
\<close>

definition tradeOf :: "(string \<Rightarrow> goerror + 'f) \<Rightarrow> 'f json \<Rightarrow> (goerror + 'f Trade) result" where
  "tradeOf pf trade =
     bind (assertMap trade) (\<lambda>t.
     bind (assertString (lookup t ''price'')) (\<lambda>ps.
       case pf ps of
         Inl err \<Rightarrow> Return (Inl err)
       | Inr price \<Rightarrow>
           bind (assertString (lookup t ''amount'')) (\<lambda>as.
             case pf as of
               Inl err \<Rightarrow> Return (Inl err)
             | Inr amount \<Rightarrow>
                 bind (assertString (lookup t ''date'')) (\<lambda>timestampStr.
                   case ParseInt timestampStr of
                     Inl err \<Rightarrow> Return (Inl err)
                   | Inr timestamp \<Rightarrow>
                       bind (assertString (lookup t ''tid'')) (\<lambda>tid.
                         Return (Inr \<lparr>TradeTime = time_Unix timestamp, TradeID = tid,
                                     TradePrice = price, TradeAmount = amount\<rparr>))))))"

fun formatLoop :: "(string \<Rightarrow> goerror + 'f) \<Rightarrow> 'f json list \<Rightarrow> nat \<Rightarrow> 'f Trade list
    \<Rightarrow> ('f Trade list \<times> goerror option) result" where
  "formatLoop pf [] i trades = Return (trades, None)"
| "formatLoop pf (trade # rest) i trades =
     bind (tradeOf pf trade) (\<lambda>r.
       case r of
         Inl err \<Rightarrow> Return (trades, Some err)
       | Inr tr \<Rightarrow> formatLoop pf rest (Suc i) (trades[i := tr]))"

text \<open>\<open>umList\<close> is \<^verbatim>\<open>json.Unmarshal\<close> into a \<^verbatim>\<open>[]interface{}\<close>.\<close>

definition formatTrades :: "(string \<Rightarrow> goerror + 'f json list) \<Rightarrow> (string \<Rightarrow> goerror + 'f::zero)
    \<Rightarrow> string \<Rightarrow> ('f Trade list \<times> goerror option) result" where
  "formatTrades umList pf body =
     (case umList body of
        Inl err \<Rightarrow> Return ([], Some err)
      | Inr defaultstruct \<Rightarrow>
          formatLoop pf defaultstruct 0 (replicate (length defaultstruct) zeroTrade))"

section \<open>WsClient (websocket.go)\<close>

text \<open>
  The client's state as the read loop and \<^verbatim>\<open>Close\<close> see it. \<open>done_chan\<close> and
  \<open>Errors\<close> hold what is queued in the buffered channels \<^verbatim>\<open>done\<close> and
  \<^verbatim>\<open>Errors\<close> (both made with capacity 1); \<open>Stream\<close> lists the events a receiver
  has taken from the unbuffered channel; \<open>ws_closed\<close> counts the calls of
  \<^verbatim>\<open>c.ws.Close()\<close>, \<open>slept\<close> adds up the loop's sleeps in milliseconds, and
  \<open>printed\<close> lists its diagnostics.
\<close>

record WsEvent =
  Event :: string
  Channel :: string
  Data :: string

datatype logline = CantWriteRead goerror | CantWriteUnmarshal goerror | FailedDone

record WsClient =
  done_chan :: "bool list"
  Errors :: "goerror list"
  Stream :: "WsEvent list"
  ws_closed :: nat
  slept :: nat
  printed :: "logline list"

definition readMsgTimeout :: nat where
  "readMsgTimeout = 100"

text \<open>A send on a buffered channel can proceed when the buffer has room.\<close>

definition trySend :: "nat \<Rightarrow> 'a list \<Rightarrow> 'a \<Rightarrow> 'a list option" where
  "trySend cap buf v = (if length buf < cap then Some (buf @ [v]) else None)"

text \<open>\<^verbatim>\<open>err.(errTemporary)\<close> and the call of \<^verbatim>\<open>Temporary()\<close>: only a transport
  error can have the method.\<close>

fun Temporary :: "goerror \<Rightarrow> bool option" where
  "Temporary (TransportError msg t) = t"
| "Temporary err = None"

text \<open>\<open>dial\<close> is the error of \<^verbatim>\<open>websocket.DefaultDialer.Dial\<close>, if any.\<close>

definition NewWsClient :: "goerror option \<Rightarrow> goerror + WsClient" where
  "NewWsClient dial =
     (case dial of
        Some err \<Rightarrow> Inl (Errorf ''error dialing websocket'' err)
      | None \<Rightarrow> Inr \<lparr>done_chan = [], Errors = [], Stream = [], ws_closed = 0, slept = 0,
                      printed = []\<rparr>)"

text \<open>The two \<^verbatim>\<open>select\<close> statements with a \<^verbatim>\<open>default\<close> branch that push an
  error: queue it if the send can proceed, print otherwise.\<close>

definition pushError :: "logline \<Rightarrow> goerror \<Rightarrow> WsClient \<Rightarrow> WsClient" where
  "pushError line err c =
     (case trySend 1 (Errors c) err of
        Some q \<Rightarrow> c\<lparr>Errors := q\<rparr>
      | None \<Rightarrow> c\<lparr>printed := printed c @ [line]\<rparr>)"

datatype status = Running | Exited | Blocked

datatype frame = ReadError goerror | Message string

text \<open>
  One iteration of the read loop. \<open>fr\<close> is what \<^verbatim>\<open>c.ws.ReadMessage()\<close> returns in
  it, \<open>um\<close> is \<^verbatim>\<open>json.Unmarshal\<close> into a \<^verbatim>\<open>WsEvent\<close>, and \<open>recv\<close> says whether
  a receiver takes the event sent on the unbuffered \<^verbatim>\<open>Stream\<close> (the goroutine stays
  blocked in the send otherwise). Every \<^verbatim>\<open>return\<close> runs the deferred
  \<^verbatim>\<open>c.ws.Close()\<close>.
\<close>

definition readIter :: "(string \<Rightarrow> goerror + WsEvent) \<Rightarrow> frame \<Rightarrow> bool \<Rightarrow> WsClient
    \<Rightarrow> status \<times> WsClient" where
  "readIter um fr recv c =
     (case done_chan c of
        d # ds \<Rightarrow> (Exited, c\<lparr>done_chan := ds, ws_closed := Suc (ws_closed c)\<rparr>)
      | [] \<Rightarrow>
          (case fr of
             ReadError err \<Rightarrow>
               (let c1 = pushError (CantWriteRead err) err c in
                if Temporary err = Some False
                then (Exited, c1\<lparr>ws_closed := Suc (ws_closed c1)\<rparr>)
                else (Running, c1\<lparr>slept := slept c1 + readMsgTimeout\<rparr>))
           | Message message \<Rightarrow>
               (case um message of
                  Inl err \<Rightarrow> (Running, pushError (CantWriteUnmarshal err) err c)
                | Inr e \<Rightarrow>
                    if recv then (Running, c\<lparr>Stream := Stream c @ [e]\<rparr>) else (Blocked, c))))"

text \<open>The loop over the frames the connection delivers; it stops consuming once the
  goroutine has returned or is blocked.\<close>

fun readLoop :: "(string \<Rightarrow> goerror + WsEvent) \<Rightarrow> (frame \<times> bool) list \<Rightarrow> WsClient
    \<Rightarrow> status \<times> WsClient" where
  "readLoop um [] c = (Running, c)"
| "readLoop um ((fr, recv) # frs) c =
     (case readIter um fr recv c of
        (Running, c') \<Rightarrow> readLoop um frs c'
      | (st, c') \<Rightarrow> (st, c'))"

definition Close :: "WsClient \<Rightarrow> WsClient" where
  "Close c =
     (case trySend 1 (done_chan c) True of
        Some q \<Rightarrow> c\<lparr>done_chan := q\<rparr>
      | None \<Rightarrow> c\<lparr>printed := printed c @ [FailedDone]\<rparr>)"

text \<open>Calls of \<^verbatim>\<open>Close\<close> from other goroutines, interleaved with the iterations of
  the read loop in any order.\<close>

datatype call = CallClose | Iterate frame bool

fun run :: "(string \<Rightarrow> goerror + WsEvent) \<Rightarrow> call list \<Rightarrow> status \<times> WsClient
    \<Rightarrow> status \<times> WsClient" where
  "run um [] sc = sc"
| "run um (CallClose # cs) (st, c) = run um cs (st, Close c)"
| "run um (Iterate fr recv # cs) (st, c) =
     run um cs (if st = Running then readIter um fr recv c else (st, c))"

subsection \<open>The second variant of the client (src/unnamed/part_001)\<close>

text \<open>
  There \<^verbatim>\<open>Errors\<close> is unbuffered and every send is a plain blocking send: the loop
  has no retry classification and no sleep, and \<^verbatim>\<open>Close\<close> blocks when the slot of
  \<^verbatim>\<open>done\<close> is taken. In this variant \<open>Errors\<close> lists the errors a receiver has
  taken, as \<open>Stream\<close> does for events, and \<open>recv\<close> is about the channel the iteration
  sends on.
\<close>

definition readIter_v1 :: "(string \<Rightarrow> goerror + WsEvent) \<Rightarrow> frame \<Rightarrow> bool \<Rightarrow> WsClient
    \<Rightarrow> status \<times> WsClient" where
  "readIter_v1 um fr recv c =
     (case done_chan c of
        d # ds \<Rightarrow> (Exited, c\<lparr>done_chan := ds, ws_closed := Suc (ws_closed c)\<rparr>)
      | [] \<Rightarrow>
          (case fr of
             ReadError err \<Rightarrow>
               if recv then (Running, c\<lparr>Errors := Errors c @ [err]\<rparr>) else (Blocked, c)
           | Message message \<Rightarrow>
               (case um message of
                  Inl err \<Rightarrow>
                    if recv then (Running, c\<lparr>Errors := Errors c @ [err]\<rparr>) else (Blocked, c)
                | Inr e \<Rightarrow>
                    if recv then (Running, c\<lparr>Stream := Stream c @ [e]\<rparr>) else (Blocked, c))))"

definition Close_v1 :: "WsClient \<Rightarrow> WsClient option" where
  "Close_v1 c =
     (case trySend 1 (done_chan c) True of
        Some q \<Rightarrow> Some (c\<lparr>done_chan := q\<rparr>)
      | None \<Rightarrow> None)"

section \<open>SubscribeOrderBook\<close>

text \<open>
  The orchestrator is a loop around a \<^verbatim>\<open>select\<close>. Its model consumes the list of
  the cases the \<^verbatim>\<open>select\<close> statements take, in order, and records the calls it
  makes on the client and the order books it sends. \<open>Waiting\<close> is the loop blocked in
  \<^verbatim>\<open>select\<close> with nothing ready, \<open>Stalled\<close> the loop blocked in the send on
  \<^verbatim>\<open>dataChan\<close>.
\<close>

datatype 'f action =
    Subscribed string
  | Bound string
  | Unbound string
  | Unsubscribed string
  | Closed
  | Sent "'f OrderBook"
  | Printed string

datatype outcome = Returned "goerror option" | Waiting | Stalled | Crashed panic

text \<open>
  The variant over \<^verbatim>\<open>WsClient\<close> (src/unnamed/part_000). A case of the
  \<^verbatim>\<open>select\<close>: an event from \<^verbatim>\<open>c.Stream\<close> (with the clock's reading while it
  is handled, and whether the caller takes an order book sent on \<^verbatim>\<open>dataChan\<close>), a
  value from \<^verbatim>\<open>stopChan\<close>, or an error from \<^verbatim>\<open>c.Errors\<close>. \<open>mar\<close> is
  \<^verbatim>\<open>json.Marshal\<close> of the event's raw payload.
\<close>

datatype ready = StreamReady WsEvent gotime bool | StopReady | ErrorsReady goerror

fun Delivering_ws :: "(string \<Rightarrow> goerror + string)
    \<Rightarrow> (string \<Rightarrow> goerror + (string \<times> 'f json) list) \<Rightarrow> (string \<Rightarrow> goerror + 'f)
    \<Rightarrow> string \<Rightarrow> ready list \<Rightarrow> 'f action list \<Rightarrow> 'f action list \<times> outcome" where
  "Delivering_ws mar um pf symb [] acts = (acts, Waiting)"
| "Delivering_ws mar um pf symb (StreamReady ev now recv # rs) acts =
     (if Event ev = ''data'' then
        (case mar (Data ev) of
           Inl err \<Rightarrow> (acts, Returned (errors_Wrap (Some err) ''error marshal data to byte''))
         | Inr b \<Rightarrow>
             (case parseOrderBook_ws um pf now b of
                Panic p \<Rightarrow> (acts, Crashed p)
              | Return (ob, Some err) \<Rightarrow> Delivering_ws mar um pf symb rs acts
              | Return (None, None) \<Rightarrow> (acts, Crashed NilDereference)
              | Return (Some ob, None) \<Rightarrow>
                  if recv then Delivering_ws mar um pf symb rs (acts @ [Sent ob])
                  else (acts, Stalled)))
      else Delivering_ws mar um pf symb rs (acts @ [Printed (Event ev)]))"
| "Delivering_ws mar um pf symb (StopReady # rs) acts = Delivering_ws mar um pf symb rs acts"
| "Delivering_ws mar um pf symb (ErrorsReady e # rs) acts =
     (acts @ [Unsubscribed (''order_book_'' @ symb), Closed], Returned None)"

definition SubscribeOrderBook_ws :: "goerror option \<Rightarrow> (string \<Rightarrow> goerror + string)
    \<Rightarrow> (string \<Rightarrow> goerror + (string \<times> 'f json) list) \<Rightarrow> (string \<Rightarrow> goerror + 'f)
    \<Rightarrow> string \<Rightarrow> ready list \<Rightarrow> 'f action list \<times> outcome" where
  "SubscribeOrderBook_ws dial mar um pf symb rs =
     (case NewWsClient dial of
        Inl err \<Rightarrow> ([], Returned (errors_Wrap (Some err) ''error initializing client''))
      | Inr c \<Rightarrow> Delivering_ws mar um pf symb rs [Subscribed (''order_book_'' @ symb)])"

text \<open>
  The variant over the pusher client (src/bitstamp.go). A case of the
  \<^verbatim>\<open>select\<close>: an event from the bound data channel, that channel found closed, or a
  value from \<^verbatim>\<open>stopChan\<close>. \<open>newClient\<close>, \<open>subscribe\<close> and \<open>bindData\<close> are the
  errors of \<^verbatim>\<open>pusher.NewClient\<close>, \<^verbatim>\<open>Subscribe\<close> and \<^verbatim>\<open>Bind\<close>, if any.
\<close>

datatype pready = DataReady string gotime bool | DataClosed | StopSignal

fun Delivering :: "(string \<Rightarrow> goerror + (string \<times> 'f json) list) \<Rightarrow> (string \<Rightarrow> goerror + 'f)
    \<Rightarrow> pready list \<Rightarrow> 'f action list \<Rightarrow> 'f action list \<times> outcome" where
  "Delivering um pf [] acts = (acts, Waiting)"
| "Delivering um pf (DataClosed # rs) acts =
     (acts, Returned (Some (ErrorsNew ''websocket has been closed'')))"
| "Delivering um pf (DataReady d now recv # rs) acts =
     (case parseOrderBook um pf now d of
        Panic p \<Rightarrow> (acts, Crashed p)
      | Return (ob, Some err) \<Rightarrow> Delivering um pf rs acts
      | Return (None, None) \<Rightarrow> (acts, Crashed NilDereference)
      | Return (Some ob, None) \<Rightarrow>
          if recv then Delivering um pf rs (acts @ [Sent ob]) else (acts, Stalled))"
| "Delivering um pf (StopSignal # rs) acts =
     (acts @ [Unbound ''data'', Unsubscribed ''order_book'', Closed], Returned None)"

definition SubscribeOrderBook :: "goerror option \<Rightarrow> goerror option \<Rightarrow> goerror option
    \<Rightarrow> (string \<Rightarrow> goerror + (string \<times> 'f json) list) \<Rightarrow> (string \<Rightarrow> goerror + 'f)
    \<Rightarrow> string \<Rightarrow> pready list \<Rightarrow> 'f action list \<times> outcome" where
  "SubscribeOrderBook newClient subscribe bindData um pf symb rs =
     (case newClient of
        Some err \<Rightarrow> ([], Returned (errors_Wrap (Some err) ''client creation error''))
      | None \<Rightarrow>
          (let channel = ''order_book'' @ (if symb \<noteq> ''btcusd'' then ''_'' @ symb else [])
           in case subscribe of
                Some err \<Rightarrow> ([], Returned (errors_Wrap (Some err) ''subscription error''))
              | None \<Rightarrow>
                  (case bindData of
                     Some err \<Rightarrow>
                       ([Subscribed channel], Returned (errors_Wrap (Some err) ''bind error''))
                   | None \<Rightarrow> Delivering um pf rs [Subscribed channel, Bound ''data''])))"

section \<open>Evaluation lemmas\<close>

lemma digit_simps:
  "digit CHR ''0'' = Some 0" "digit CHR ''1'' = Some 1" "digit CHR ''2'' = Some 2"
  "digit CHR ''3'' = Some 3" "digit CHR ''4'' = Some 4" "digit CHR ''5'' = Some 5"
  "digit CHR ''6'' = Some 6" "digit CHR ''7'' = Some 7" "digit CHR ''8'' = Some 8"
  "digit CHR ''9'' = Some 9" "digit CHR ''.'' = None" "digit CHR ''x'' = None"
  "digit CHR ''a'' = None" "digit CHR ''b'' = None" "digit CHR ''c'' = None"
  by (simp_all add: digit_def)

lemma decimal_examples:
  "decimal ''100.5'' = Inr (201 / 2)" "decimal ''101'' = Inr 101" "decimal ''102'' = Inr 102"
  "decimal ''1'' = Inr 1" "decimal ''2'' = Inr 2" "decimal ''3'' = Inr 3" "decimal ''10'' = Inr 10"
  "decimal ''x'' = Inl (NumError ''ParseFloat'' ''x'' ErrSyntax)"
  by (simp_all add: decimal_def digit_simps)

lemma ParseInt_examples:
  "ParseInt ''1700000000'' = Inr 1700000000"
  "ParseInt ''1600000000'' = Inr 1600000000"
  "ParseInt ''abc'' = Inl (NumError ''ParseInt'' ''abc'' ErrSyntax)"
  by (simp_all add: ParseInt_def ParseUint_def digit_simps)

section \<open>Order-book decoding\<close>

lemma parse_wire_pairs:
  assumes "\<forall>(p, a) \<in> set ps. pf p = Inr (v p) \<and> pf a = Inr (v a)"
  shows "parse pf (map (\<lambda>(p, a). JArray [JString p, JString a]) ps) acc
           = Return (acc @ map (\<lambda>(p, a). \<lparr>Price = v p, Amount = v a\<rparr>) ps, None)"
  using assms
proof (induction ps arbitrary: acc)
  case Nil
  then show ?case by simp
next
  case (Cons x xs)
  obtain p a where x: "x = (p, a)" by (cases x)
  from Cons.prems x have px: "pf p = Inr (v p)" and pa: "pf a = Inr (v a)"
    and rest: "\<forall>(p, a) \<in> set xs. pf p = Inr (v p) \<and> pf a = Inr (v a)"
    by auto
  show ?case
    using Cons.IH [OF rest] by (simp add: x px pa index_def)
qed

lemma parse_prefix:
  assumes "\<forall>(p, a, extra) \<in> set good. pf p = Inr (v p) \<and> pf a = Inr (v a)"
  shows "parse pf (map (\<lambda>(p, a, extra). JArray (JString p # JString a # extra)) good @ rest) acc
           = parse pf rest (acc @ map (\<lambda>(p, a, extra). \<lparr>Price = v p, Amount = v a\<rparr>) good)"
  using assms
proof (induction good arbitrary: acc)
  case Nil
  then show ?case by simp
next
  case (Cons g gs)
  obtain p a extra where g: "g = (p, a, extra)" by (cases g)
  from Cons.prems g have px: "pf p = Inr (v p)" and pa: "pf a = Inr (v a)"
    and rest: "\<forall>(p, a, extra) \<in> set gs. pf p = Inr (v p) \<and> pf a = Inr (v a)"
    by auto
  show ?case
    using Cons.IH [OF rest] by (simp add: g px pa index_def)
qed

lemma parse_bad_element:
  assumes "pf p = Inl e \<or> (pf p = Inr x \<and> pf a = Inl e)"
  shows "parse pf (JArray (JString p # JString a # extra) # rest) acc = Return ([], Some e)"
  using assms by (auto simp: index_def)

lemma parse_first_failure:
  assumes "\<forall>(p, a, extra) \<in> set good. pf p = Inr (v p) \<and> pf a = Inr (v a)"
    and "pf p = Inl e \<or> (pf p = Inr x \<and> pf a = Inl e)"
  shows "parse pf (map (\<lambda>(p, a, extra). JArray (JString p # JString a # extra)) good
                     @ JArray (JString p # JString a # extra) # rest) []
           = Return ([], Some e)"
  by (simp only: parse_prefix [OF assms(1)] parse_bad_element [OF assms(2)])

lemma parseSides_error_no_book:
  "parseSides pf ts bids asks = Return (ob, Some err) \<Longrightarrow> ob = None"
  unfolding parseSides_def
  by (cases "parse pf bids []"; cases "parse pf asks []")
     (auto split: option.splits prod.splits)

lemma parseOrderBook_error_no_book:
  "parseOrderBook um pf now data = Return (ob, Some err) \<Longrightarrow> ob = None"
  unfolding parseOrderBook_def
  by (cases "um data"; cases "parseTimestamp now (projr (um data))";
      cases "lookup (projr (um data)) ''bids''"; cases "lookup (projr (um data)) ''asks''")
     (auto dest: parseSides_error_no_book)

text \<open>
  Claim C1. For a well-formed wire object (a valid or absent timestamp, and bids and asks
  that are sequences of two-string pairs, every string accepted by \<^verbatim>\<open>ParseFloat\<close>),
  both variants of \<^verbatim>\<open>parseOrderBook\<close> return an order book whose bids and asks are
  the input pairs, position by position, with the parsed values: nothing is dropped,
  added or reordered.
\<close>

theorem parseOrderBook_mirrors_input_order:
  assumes "um data = Inr defaultstruct"
    and "parseTimestamp now defaultstruct = Inr ts"
    and "map_of defaultstruct ''bids'' = Some (JArray (map (\<lambda>(p, a). JArray [JString p, JString a]) bs))"
    and "map_of defaultstruct ''asks'' = Some (JArray (map (\<lambda>(p, a). JArray [JString p, JString a]) as))"
    and "\<forall>(p, a) \<in> set (bs @ as). pf p = Inr (v p) \<and> pf a = Inr (v a)"
  shows "parseOrderBook um pf now data =
           Return (Some \<lparr>Time = time_Unix ts,
                         Asks = map (\<lambda>(p, a). \<lparr>Price = v p, Amount = v a\<rparr>) as,
                         Bids = map (\<lambda>(p, a). \<lparr>Price = v p, Amount = v a\<rparr>) bs\<rparr>, None)
       \<and> parseOrderBook_ws um pf now data =
           Return (Some \<lparr>Time = time_Unix ts,
                         Asks = map (\<lambda>(p, a). \<lparr>Price = v p, Amount = v a\<rparr>) as,
                         Bids = map (\<lambda>(p, a). \<lparr>Price = v p, Amount = v a\<rparr>) bs\<rparr>, None)"
proof -
  from assms(5) have b: "\<forall>(p, a) \<in> set bs. pf p = Inr (v p) \<and> pf a = Inr (v a)"
    and a: "\<forall>(p, a) \<in> set as. pf p = Inr (v p) \<and> pf a = Inr (v a)"
    by auto
  have sides: "parseSides pf ts (map (\<lambda>(p, a). JArray [JString p, JString a]) bs)
                 (map (\<lambda>(p, a). JArray [JString p, JString a]) as) =
           Return (Some \<lparr>Time = time_Unix ts,
                         Asks = map (\<lambda>(p, a). \<lparr>Price = v p, Amount = v a\<rparr>) as,
                         Bids = map (\<lambda>(p, a). \<lparr>Price = v p, Amount = v a\<rparr>) bs\<rparr>, None)"
    by (simp add: parseSides_def parse_wire_pairs [OF b] parse_wire_pairs [OF a])
  show ?thesis
    by (simp add: parseOrderBook_def parseOrderBook_ws_def assms(1-4) lookup_def sides)
qed

text \<open>The instance of the specification's example; the clock reads second 1700000000.\<close>

theorem parseOrderBook_mirrors_input_order_witness:
  \<open>parseOrderBook
     (unmarshalTable
        [(''{"bids":[["100.5","2"],["101","1"]],"asks":[["102","3"]]}'',
          [(''bids'', JArray [JArray [JString ''100.5'', JString ''2''],
                              JArray [JString ''101'', JString ''1'']]),
           (''asks'', JArray [JArray [JString ''102'', JString ''3'']])])])
     decimal \<lparr>sec = 1700000000, nsec = 0\<rparr>
     ''{"bids":[["100.5","2"],["101","1"]],"asks":[["102","3"]]}''
   = Return (Some \<lparr>Time = \<lparr>sec = 1700000000, nsec = 0\<rparr>,
                   Asks = [\<lparr>Price = 102, Amount = 3\<rparr>],
                   Bids = [\<lparr>Price = 201 / 2, Amount = 2\<rparr>, \<lparr>Price = 101, Amount = 1\<rparr>]\<rparr>,
             None)\<close>
proof -
  let ?wire = \<open>''{"bids":[["100.5","2"],["101","1"]],"asks":[["102","3"]]}''\<close>
  let ?bs = "[(''100.5'', ''2''), (''101'', ''1'')]"
  let ?as = "[(''102'', ''3'')]"
  let ?doc = "[(''bids'', JArray (map (\<lambda>(p, a). JArray [JString p, JString a]) ?bs)),
               (''asks'', JArray (map (\<lambda>(p, a). JArray [JString p, JString a]) ?as))]
                :: (string \<times> rat json) list"
  let ?um = "unmarshalTable [(?wire, ?doc)]"
  let ?v = "\<lambda>s. case decimal s of Inr x \<Rightarrow> x | Inl e \<Rightarrow> 0"
  have um: "?um ?wire = Inr ?doc"
    by (simp add: unmarshalTable_def)
  have ts: "parseTimestamp \<lparr>sec = 1700000000, nsec = 0\<rparr> ?doc = Inr 1700000000"
    by (simp add: parseTimestamp_def Unix_def)
  have bids: "map_of ?doc ''bids'' = Some (JArray (map (\<lambda>(p, a). JArray [JString p, JString a]) ?bs))"
    and asks: "map_of ?doc ''asks'' = Some (JArray (map (\<lambda>(p, a). JArray [JString p, JString a]) ?as))"
    by simp_all
  have ok: "\<forall>(p, a) \<in> set (?bs @ ?as). decimal p = Inr (?v p) \<and> decimal a = Inr (?v a)"
    by (simp add: decimal_examples)
  show ?thesis
    using parseOrderBook_mirrors_input_order [where um = ?um and data = ?wire and pf = decimal
        and v = ?v, OF um ts bids asks ok]
    by (simp add: decimal_examples time_Unix_def)
qed

text \<open>
  Claim C4, as stated, fails: the decoder has no arity check. A bids element of three
  entries decodes (the third is ignored), and one of a single entry makes the call
  panic with an index out of range instead of returning an error.
\<close>

theorem arity_not_checked_counterexample:
  \<open>parseOrderBook
     (unmarshalTable
        [(''{"bids":[["1","2","3"]],"asks":[]}'',
          [(''bids'', JArray [JArray [JString ''1'', JString ''2'', JString ''3'']]),
           (''asks'', JArray [])])])
     decimal \<lparr>sec = 1700000000, nsec = 0\<rparr> ''{"bids":[["1","2","3"]],"asks":[]}''
   = Return (Some \<lparr>Time = \<lparr>sec = 1700000000, nsec = 0\<rparr>, Asks = [],
                   Bids = [\<lparr>Price = 1, Amount = 2\<rparr>]\<rparr>, None)
   \<and> parseOrderBook
     (unmarshalTable
        [(''{"bids":[["1"]],"asks":[]}'',
          [(''bids'', JArray [JArray [JString ''1'']]), (''asks'', JArray [])])])
     decimal \<lparr>sec = 1700000000, nsec = 0\<rparr> ''{"bids":[["1"]],"asks":[]}''
   = Panic (IndexOutOfRange 1 1)\<close>
  by (simp add: parseOrderBook_def unmarshalTable_def parseTimestamp_def Unix_def lookup_def
      parseSides_def index_def decimal_examples time_Unix_def)

text \<open>
  Claim C4, amended. Let the timestamp be valid or absent and both sides be arrays. If
  the first bids element whose price or amount string \<^verbatim>\<open>ParseFloat\<close> rejects is
  an array that starts with two strings, and so are the elements before it, the decode
  returns no order book and the error \<^verbatim>\<open>errors.Wrap(err, "bids parsing error")\<close>
  around the parse error; the same holds for asks with "asks parsing error" once all
  of bids has parsed. Entries after the second are ignored.
\<close>

theorem parse_failure_names_side:
  assumes "um data = Inr defaultstruct"
    and "parseTimestamp now defaultstruct = Inr ts"
    and "lookup defaultstruct ''bids'' = JArray bids"
    and "lookup defaultstruct ''asks'' = JArray asks"
    and "\<forall>(p, a, extra) \<in> set good. pf p = Inr (v p) \<and> pf a = Inr (v a)"
    and "pf p = Inl e \<or> (pf p = Inr x \<and> pf a = Inl e)"
  shows "(bids = map (\<lambda>(p, a, extra). JArray (JString p # JString a # extra)) good
                   @ JArray (JString p # JString a # extra) # rest
            \<longrightarrow> parseOrderBook um pf now data
                  = Return (None, Some (Wrapped e ''bids parsing error'')))
       \<and> (parse pf bids [] = Return (parsedBids, None)
            \<and> asks = map (\<lambda>(p, a, extra). JArray (JString p # JString a # extra)) good
                       @ JArray (JString p # JString a # extra) # rest
            \<longrightarrow> parseOrderBook um pf now data
                  = Return (None, Some (Wrapped e ''asks parsing error'')))"
proof (intro conjI impI)
  assume "bids = map (\<lambda>(p, a, extra). JArray (JString p # JString a # extra)) good
                   @ JArray (JString p # JString a # extra) # rest"
  then have "parse pf bids [] = Return ([], Some e)"
    using parse_first_failure [OF assms(5,6)] by simp
  then show "parseOrderBook um pf now data = Return (None, Some (Wrapped e ''bids parsing error''))"
    by (simp add: parseOrderBook_def assms(1-4) parseSides_def)
next
  assume "parse pf bids [] = Return (parsedBids, None)
            \<and> asks = map (\<lambda>(p, a, extra). JArray (JString p # JString a # extra)) good
                       @ JArray (JString p # JString a # extra) # rest"
  then have b: "parse pf bids [] = Return (parsedBids, None)"
    and "parse pf asks [] = Return ([], Some e)"
    using parse_first_failure [OF assms(5,6)] by simp_all
  then show "parseOrderBook um pf now data = Return (None, Some (Wrapped e ''asks parsing error''))"
    by (simp add: parseOrderBook_def assms(1-4) parseSides_def)
qed

text \<open>The instance of the specification's example, bids \<^verbatim>\<open>[["x","1"]]\<close>.\<close>

theorem parse_failure_names_side_witness:
  \<open>parseOrderBook
     (unmarshalTable
        [(''{"bids":[["x","1"]],"asks":[]}'',
          [(''bids'', JArray [JArray [JString ''x'', JString ''1'']]), (''asks'', JArray [])])])
     decimal \<lparr>sec = 1700000000, nsec = 0\<rparr> ''{"bids":[["x","1"]],"asks":[]}''
   = Return (None, Some (Wrapped (NumError ''ParseFloat'' ''x'' ErrSyntax) ''bids parsing error''))\<close>
proof -
  let ?wire = \<open>''{"bids":[["x","1"]],"asks":[]}''\<close>
  let ?doc = "[(''bids'', JArray [JArray [JString ''x'', JString ''1'']]), (''asks'', JArray [])]
                :: (string \<times> rat json) list"
  let ?um = "unmarshalTable [(?wire, ?doc)]"
  have um: "?um ?wire = Inr ?doc"
    by (simp add: unmarshalTable_def)
  have ts: "parseTimestamp \<lparr>sec = 1700000000, nsec = 0\<rparr> ?doc = Inr 1700000000"
    by (simp add: parseTimestamp_def Unix_def)
  have bids: "lookup ?doc ''bids'' = JArray [JArray [JString ''x'', JString ''1'']]"
    and asks: "lookup ?doc ''asks'' = JArray []"
    by (simp_all add: lookup_def)
  have good: "\<forall>(p, a, extra) \<in> set ([] :: (string \<times> string \<times> rat json list) list).
                decimal p = Inr (0 :: rat) \<and> decimal a = Inr 0"
    by simp
  have bad: "decimal ''x'' = Inl (NumError ''ParseFloat'' ''x'' ErrSyntax)
               \<or> (decimal ''x'' = Inr 0 \<and> decimal ''1'' = Inl (NumError ''ParseFloat'' ''x'' ErrSyntax))"
    by (simp add: decimal_examples)
  show ?thesis
    using parse_failure_names_side [where um = ?um and data = ?wire and pf = decimal
        and rest = "[]" and extra = "[]", OF um ts bids asks good bad]
    by simp
qed

text \<open>
  Claim C5, as stated, fails twice. A timestamp that is a string but no base-10 integer
  is answered with the error of \<^verbatim>\<open>ParseInt\<close>, not with "invalid timestamp"; and
  with no timestamp the result is the clock's reading cut to whole seconds, which lies
  before the instant the call started whenever that instant is not a whole second.
\<close>

theorem invalid_timestamp_counterexample:
  \<open>parseOrderBook
     (unmarshalTable
        [(''{"timestamp":"abc","bids":[],"asks":[]}'',
          [(''timestamp'', JString ''abc''), (''bids'', JArray []), (''asks'', JArray [])])])
     decimal \<lparr>sec = 1700000000, nsec = 0\<rparr> ''{"timestamp":"abc","bids":[],"asks":[]}''
   = Return (None, Some (NumError ''ParseInt'' ''abc'' ErrSyntax))
   \<and> NumError ''ParseInt'' ''abc'' ErrSyntax \<noteq> ErrorsNew ''invalid timestamp''
   \<and> parseOrderBook
     (unmarshalTable [(''{"bids":[],"asks":[]}'', [(''bids'', JArray []), (''asks'', JArray [])])])
     decimal \<lparr>sec = 1700000000, nsec = 500000000\<rparr> ''{"bids":[],"asks":[]}''
   = Return (Some \<lparr>Time = \<lparr>sec = 1700000000, nsec = 0\<rparr>, Asks = [], Bids = []\<rparr>, None)
   \<and> \<not> notAfter \<lparr>sec = 1700000000, nsec = 500000000\<rparr> \<lparr>sec = 1700000000, nsec = 0\<rparr>\<close>
  by (simp add: parseOrderBook_def unmarshalTable_def parseTimestamp_def Unix_def lookup_def
      parseSides_def ParseInt_examples time_Unix_def notAfter_def)

text \<open>
  Claim C5, amended. A timestamp that is a string \<^verbatim>\<open>ParseInt\<close> rejects fails the
  decode with the error of \<^verbatim>\<open>ParseInt\<close>, unwrapped; a timestamp that is not a
  string fails it with "invalid timestamp". When both sides parse: with no timestamp
  the order book's time is \<^verbatim>\<open>time.Unix(time.Now().Unix(), 0)\<close>, the clock's reading
  within the call cut to its whole second (never after the reading); with a timestamp
  string \<^verbatim>\<open>ParseInt\<close> accepts it is that Unix second, and "1700000000" is read as
  1700000000.
\<close>

theorem parseOrderBook_timestamp:
  assumes "um data = Inr defaultstruct"
  shows "(map_of defaultstruct ''timestamp'' = Some (JString s) \<and> ParseInt s = Inl e
            \<longrightarrow> parseOrderBook um pf now data = Return (None, Some e))
       \<and> (map_of defaultstruct ''timestamp'' = Some tv \<and> (\<forall>s. tv \<noteq> JString s)
            \<longrightarrow> parseOrderBook um pf now data = Return (None, Some (ErrorsNew ''invalid timestamp'')))
       \<and> (lookup defaultstruct ''bids'' = JArray bids \<and> lookup defaultstruct ''asks'' = JArray asks
            \<and> parse pf bids [] = Return (parsedBids, None)
            \<and> parse pf asks [] = Return (parsedAsks, None)
            \<longrightarrow> (map_of defaultstruct ''timestamp'' = None
                   \<longrightarrow> parseOrderBook um pf now data
                         = Return (Some \<lparr>Time = time_Unix (Unix now), Asks = parsedAsks,
                                         Bids = parsedBids\<rparr>, None)
                       \<and> sec (time_Unix (Unix now)) = sec now
                       \<and> notAfter (time_Unix (Unix now)) now)
                \<and> (map_of defaultstruct ''timestamp'' = Some (JString s) \<and> ParseInt s = Inr t
                   \<longrightarrow> parseOrderBook um pf now data
                         = Return (Some \<lparr>Time = time_Unix t, Asks = parsedAsks,
                                         Bids = parsedBids\<rparr>, None)))
       \<and> ParseInt ''1700000000'' = Inr 1700000000"
proof (intro conjI impI)
  assume "map_of defaultstruct ''timestamp'' = Some (JString s) \<and> ParseInt s = Inl e"
  then show "parseOrderBook um pf now data = Return (None, Some e)"
    by (simp add: parseOrderBook_def assms parseTimestamp_def)
next
  assume "map_of defaultstruct ''timestamp'' = Some tv \<and> (\<forall>s. tv \<noteq> JString s)"
  then show "parseOrderBook um pf now data = Return (None, Some (ErrorsNew ''invalid timestamp''))"
    by (cases tv) (simp_all add: parseOrderBook_def assms parseTimestamp_def)
next
  assume sides: "lookup defaultstruct ''bids'' = JArray bids \<and> lookup defaultstruct ''asks'' = JArray asks
            \<and> parse pf bids [] = Return (parsedBids, None)
            \<and> parse pf asks [] = Return (parsedAsks, None)"
    and "map_of defaultstruct ''timestamp'' = None"
  then show "parseOrderBook um pf now data
               = Return (Some \<lparr>Time = time_Unix (Unix now), Asks = parsedAsks,
                               Bids = parsedBids\<rparr>, None)"
    by (simp add: parseOrderBook_def assms parseTimestamp_def parseSides_def)
next
  show "sec (time_Unix (Unix now)) = sec now"
    by (simp add: time_Unix_def Unix_def)
next
  show "notAfter (time_Unix (Unix now)) now"
    by (simp add: time_Unix_def Unix_def notAfter_def)
next
  assume sides: "lookup defaultstruct ''bids'' = JArray bids \<and> lookup defaultstruct ''asks'' = JArray asks
            \<and> parse pf bids [] = Return (parsedBids, None)
            \<and> parse pf asks [] = Return (parsedAsks, None)"
    and "map_of defaultstruct ''timestamp'' = Some (JString s) \<and> ParseInt s = Inr t"
  then show "parseOrderBook um pf now data
               = Return (Some \<lparr>Time = time_Unix t, Asks = parsedAsks, Bids = parsedBids\<rparr>, None)"
    by (simp add: parseOrderBook_def assms parseTimestamp_def parseSides_def)
next
  show "ParseInt ''1700000000'' = Inr 1700000000"
    by (simp add: ParseInt_examples)
qed

theorem parseOrderBook_timestamp_witness:
  \<open>parseOrderBook
     (unmarshalTable
        [(''{"timestamp":"1700000000","bids":[],"asks":[]}'',
          [(''timestamp'', JString ''1700000000''), (''bids'', JArray []), (''asks'', JArray [])])])
     decimal \<lparr>sec = 1800000000, nsec = 5\<rparr> ''{"timestamp":"1700000000","bids":[],"asks":[]}''
   = Return (Some \<lparr>Time = \<lparr>sec = 1700000000, nsec = 0\<rparr>, Asks = [], Bids = []\<rparr>, None)
   \<and> parseOrderBook
     (unmarshalTable
        [(''{"bids":[],"asks":[]}'', [(''bids'', JArray []), (''asks'', JArray [])])])
     decimal \<lparr>sec = 1800000000, nsec = 5\<rparr> ''{"bids":[],"asks":[]}''
   = Return (Some \<lparr>Time = \<lparr>sec = 1800000000, nsec = 0\<rparr>, Asks = [], Bids = []\<rparr>, None)
   \<and> parseOrderBook
     (unmarshalTable
        [(''{"timestamp":1700000000,"bids":[],"asks":[]}'',
          [(''timestamp'', JNumber 1700000000), (''bids'', JArray []), (''asks'', JArray [])])])
     decimal \<lparr>sec = 1800000000, nsec = 5\<rparr> ''{"timestamp":1700000000,"bids":[],"asks":[]}''
   = Return (None, Some (ErrorsNew ''invalid timestamp''))\<close>
proof -
  let ?now = "\<lparr>sec = 1800000000, nsec = 5\<rparr>"
  let ?w1 = \<open>''{"timestamp":"1700000000","bids":[],"asks":[]}''\<close>
  let ?d1 = "[(''timestamp'', JString ''1700000000''), (''bids'', JArray []), (''asks'', JArray [])]
               :: (string \<times> rat json) list"
  let ?w2 = \<open>''{"bids":[],"asks":[]}''\<close>
  let ?d2 = "[(''bids'', JArray []), (''asks'', JArray [])] :: (string \<times> rat json) list"
  let ?w3 = \<open>''{"timestamp":1700000000,"bids":[],"asks":[]}''\<close>
  let ?d3 = "[(''timestamp'', JNumber 1700000000), (''bids'', JArray []), (''asks'', JArray [])]
               :: (string \<times> rat json) list"
  have u1: "unmarshalTable [(?w1, ?d1)] ?w1 = Inr ?d1"
    and u2: "unmarshalTable [(?w2, ?d2)] ?w2 = Inr ?d2"
    and u3: "unmarshalTable [(?w3, ?d3)] ?w3 = Inr ?d3"
    by (simp_all add: unmarshalTable_def)
  have c1: "parseOrderBook (unmarshalTable [(?w1, ?d1)]) decimal ?now ?w1
              = Return (Some \<lparr>Time = time_Unix 1700000000, Asks = [], Bids = []\<rparr>, None)"
    using parseOrderBook_timestamp [where um = "unmarshalTable [(?w1, ?d1)]" and data = ?w1
        and pf = decimal and now = ?now and bids = "[]" and asks = "[]" and parsedBids = "[]"
        and parsedAsks = "[]" and s = "''1700000000''" and t = 1700000000, OF u1]
    by (simp add: lookup_def ParseInt_examples)
  have c2: "parseOrderBook (unmarshalTable [(?w2, ?d2)]) decimal ?now ?w2
              = Return (Some \<lparr>Time = time_Unix (Unix ?now), Asks = [], Bids = []\<rparr>, None)"
    using parseOrderBook_timestamp [where um = "unmarshalTable [(?w2, ?d2)]" and data = ?w2
        and pf = decimal and now = ?now and bids = "[]" and asks = "[]" and parsedBids = "[]"
        and parsedAsks = "[]", OF u2]
    by (simp add: lookup_def)
  have c3: "parseOrderBook (unmarshalTable [(?w3, ?d3)]) decimal ?now ?w3
              = Return (None, Some (ErrorsNew ''invalid timestamp''))"
    using parseOrderBook_timestamp [where um = "unmarshalTable [(?w3, ?d3)]" and data = ?w3
        and pf = decimal and now = ?now and tv = "JNumber 1700000000", OF u3]
    by simp
  show ?thesis
    using c1 c2 c3 by (simp add: time_Unix_def Unix_def)
qed

text \<open>
  What the unchecked assertions and indexings of the decoder do on a malformed side or
  element. An element panics unless it is an array that starts with a string which
  \<^verbatim>\<open>ParseFloat\<close> rejects (then the parse error is returned before entry 1 is
  touched) or with two strings.
\<close>

lemma parseOrderBook_side_not_array_panics:
  assumes "um data = Inr defaultstruct"
    and "parseTimestamp now defaultstruct = Inr ts"
    and "(\<forall>xs. lookup defaultstruct ''bids'' \<noteq> JArray xs)
           \<or> (\<forall>xs. lookup defaultstruct ''asks'' \<noteq> JArray xs)"
  shows "parseOrderBook um pf now data = Panic (InterfaceConversion ''[]interface {}'')"
    and "parseOrderBook_ws um pf now data = Return (None, None)"
  using assms
  by (cases "lookup defaultstruct ''bids''"; cases "lookup defaultstruct ''asks''";
      simp add: parseOrderBook_def parseOrderBook_ws_def)+

lemma parse_element_not_array:
  "(\<forall>ord. elem \<noteq> JArray ord)
     \<Longrightarrow> parse pf (elem # arr) acc = Panic (InterfaceConversion ''[]interface {}'')"
  by (cases elem) simp_all

lemma parse_element_empty:
  "parse pf (JArray [] # arr) acc = Panic (IndexOutOfRange 0 0)"
  by (simp add: index_def)

lemma parse_element_price_not_string:
  "(\<forall>s. o0 \<noteq> JString s)
     \<Longrightarrow> parse pf (JArray (o0 # ord) # arr) acc = Panic (InterfaceConversion ''string'')"
  by (cases o0) (simp_all add: index_def)

lemma parse_element_single:
  "pf p = Inr x \<Longrightarrow> parse pf (JArray [JString p] # arr) acc = Panic (IndexOutOfRange 1 1)"
  by (simp add: index_def)

lemma parse_element_amount_not_string:
  "pf p = Inr x \<Longrightarrow> (\<forall>s. o1 \<noteq> JString s)
     \<Longrightarrow> parse pf (JArray (JString p # o1 # ord) # arr) acc
          = Panic (InterfaceConversion ''string'')"
  by (cases o1) (simp_all add: index_def)

lemma parse_element_price_rejected:
  "pf p = Inl e \<Longrightarrow> parse pf (JArray (JString p # ord) # arr) acc = Return ([], Some e)"
  by (simp add: index_def)

text \<open>
  Claim C10 says that the second variant (src/unnamed/part_000) returns the error "bids
  interface convert error" when the bids field is missing. It does not: the error it
  wraps is nil, \<^verbatim>\<open>errors.Wrap\<close> of nil is nil, and the call returns a nil order book
  with a nil error, for every \<^verbatim>\<open>ParseFloat\<close> and clock. On the same input the
  first variant (src/bitstamp.go) panics, as the claim says.
\<close>

theorem missing_bids_returns_nil_nil:
  \<open>parseOrderBook_ws
     (unmarshalTable [(''{"asks":[]}'', [(''asks'', JArray [])])]) pf now ''{"asks":[]}''
   = Return (None, None)
   \<and> parseOrderBook
     (unmarshalTable [(''{"asks":[]}'', [(''asks'', JArray [])])]) pf now ''{"asks":[]}''
   = Panic (InterfaceConversion ''[]interface {}'')\<close>
  by (simp add: parseOrderBook_ws_def parseOrderBook_def unmarshalTable_def parseTimestamp_def
      lookup_def)

section \<open>Trade-list decoding\<close>

lemma formatLoop_prefix:
  assumes "list_all2 (\<lambda>x tr. tradeOf pf x = Return (Inr tr)) pre ts"
    and "i + length pre \<le> length trades"
  shows "formatLoop pf (pre @ rest) i trades
           = formatLoop pf rest (i + length pre)
               (take i trades @ ts @ drop (i + length pre) trades)"
  using assms
proof (induction pre ts arbitrary: i trades rule: list_all2_induct)
  case Nil
  then show ?case by simp
next
  case (Cons x xs tr trs)
  from Cons.prems have i: "i < length trades" and le: "Suc i + length xs \<le> length (trades[i := tr])"
    by simp_all
  have "formatLoop pf ((x # xs) @ rest) i trades = formatLoop pf (xs @ rest) (Suc i) (trades[i := tr])"
    using Cons.hyps(1) by simp
  also have "\<dots> = formatLoop pf rest (Suc i + length xs)
      (take (Suc i) (trades[i := tr]) @ trs @ drop (Suc i + length xs) (trades[i := tr]))"
    by (rule Cons.IH [OF le])
  also have "take (Suc i) (trades[i := tr]) = take i trades @ [tr]"
    using i by (simp add: take_Suc_conv_app_nth)
  also have "drop (Suc i + length xs) (trades[i := tr]) = drop (Suc i + length xs) trades"
    by simp
  finally show ?case by simp
qed

lemma tradeOf_parse_failure:
  assumes "lookup m ''price'' = JString ps"
    and "lookup m ''amount'' = JString as"
    and "lookup m ''date'' = JString ds"
    and "pf ps = Inl e \<or> (pf ps = Inr x \<and> pf as = Inl e)
           \<or> (pf ps = Inr x \<and> pf as = Inr y \<and> ParseInt ds = Inl e)"
  shows "tradeOf pf (JObject m) = Return (Inl e)"
  using assms by (auto simp: tradeOf_def)

text \<open>
  Claim C3, as stated, fails: a missing field and a field of the wrong type make
  \<^verbatim>\<open>formatTrades\<close> panic in an unchecked type assertion; no error is returned and no
  output.
\<close>

theorem formatTrades_missing_field_counterexample:
  \<open>formatTrades
     (unmarshalTable
        [(''[{"amount":"1","date":"1600000000","tid":"55"}]'',
          [JObject [(''amount'', JString ''1''), (''date'', JString ''1600000000''),
                    (''tid'', JString ''55'')]])])
     decimal ''[{"amount":"1","date":"1600000000","tid":"55"}]''
   = Panic (InterfaceConversion ''string'')
   \<and> formatTrades
     (unmarshalTable
        [(''[{"price":"10","amount":"1","date":"1600000000","tid":55}]'',
          [JObject [(''price'', JString ''10''), (''amount'', JString ''1''),
                    (''date'', JString ''1600000000''), (''tid'', JNumber 55)]])])
     decimal ''[{"price":"10","amount":"1","date":"1600000000","tid":55}]''
   = Panic (InterfaceConversion ''string'')\<close>
  by (simp add: formatTrades_def unmarshalTable_def tradeOf_def lookup_def decimal_examples
      ParseInt_examples)

text \<open>
  Claim C3, amended. Let the elements before the failing one decode, and let the failing
  element be an object whose price, amount and date are strings, the first of which (in
  this order) is rejected by its parser. Then \<^verbatim>\<open>formatTrades\<close> returns that parse
  error together with a slice as long as the input: the trades decoded so far, then
  zero trades from the failing position on.
\<close>

theorem formatTrades_parse_failure:
  assumes "umList body = Inr (pre @ JObject m # post)"
    and "list_all2 (\<lambda>x tr. tradeOf pf x = Return (Inr tr)) pre ts"
    and "lookup m ''price'' = JString ps"
    and "lookup m ''amount'' = JString as"
    and "lookup m ''date'' = JString ds"
    and "pf ps = Inl e \<or> (pf ps = Inr x \<and> pf as = Inl e)
           \<or> (pf ps = Inr x \<and> pf as = Inr y \<and> ParseInt ds = Inl e)"
  shows "formatTrades umList pf body
           = Return (ts @ replicate (Suc (length post)) zeroTrade, Some e)"
proof -
  let ?n = "length (pre @ JObject m # post)"
  have len: "length ts = length pre"
    using assms(2) by (simp add: list_all2_lengthD)
  have "formatLoop pf (pre @ JObject m # post) 0 (replicate ?n zeroTrade)
          = formatLoop pf (JObject m # post) (0 + length pre)
              (take 0 (replicate ?n zeroTrade) @ ts @ drop (0 + length pre) (replicate ?n zeroTrade))"
    by (rule formatLoop_prefix [OF assms(2)]) simp
  also have "drop (0 + length pre) (replicate ?n zeroTrade)
               = replicate (Suc (length post)) (zeroTrade :: 'a Trade)"
    by (simp del: replicate.simps add: drop_replicate)
  also have "formatLoop pf (JObject m # post) (0 + length pre)
               (take 0 (replicate ?n zeroTrade) @ ts @ replicate (Suc (length post)) zeroTrade)
             = Return (ts @ replicate (Suc (length post)) zeroTrade, Some e)"
    by (simp add: tradeOf_parse_failure [OF assms(3-6)])
  finally show ?thesis
    by (simp add: formatTrades_def assms(1))
qed

theorem formatTrades_parse_failure_witness:
  \<open>formatTrades
     (unmarshalTable
        [(''[{"price":"10","amount":"1","date":"1600000000","tid":"55"},{"price":"x","amount":"1","date":"1600000000","tid":"56"},{"price":"10","amount":"1","date":"1600000000","tid":"57"}]'',
          [JObject [(''price'', JString ''10''), (''amount'', JString ''1''),
                    (''date'', JString ''1600000000''), (''tid'', JString ''55'')],
           JObject [(''price'', JString ''x''), (''amount'', JString ''1''),
                    (''date'', JString ''1600000000''), (''tid'', JString ''56'')],
           JObject [(''price'', JString ''10''), (''amount'', JString ''1''),
                    (''date'', JString ''1600000000''), (''tid'', JString ''57'')]])])
     decimal
     ''[{"price":"10","amount":"1","date":"1600000000","tid":"55"},{"price":"x","amount":"1","date":"1600000000","tid":"56"},{"price":"10","amount":"1","date":"1600000000","tid":"57"}]''
   = Return ([\<lparr>TradeTime = \<lparr>sec = 1600000000, nsec = 0\<rparr>, TradeID = ''55'',
               TradePrice = 10, TradeAmount = 1\<rparr>,
              \<lparr>TradeTime = \<lparr>sec = - 62135596800, nsec = 0\<rparr>, TradeID = [],
               TradePrice = 0, TradeAmount = 0\<rparr>,
              \<lparr>TradeTime = \<lparr>sec = - 62135596800, nsec = 0\<rparr>, TradeID = [],
               TradePrice = 0, TradeAmount = 0\<rparr>],
             Some (NumError ''ParseFloat'' ''x'' ErrSyntax))\<close>
proof -
  let ?good = "JObject [(''price'', JString ''10''), (''amount'', JString ''1''),
                    (''date'', JString ''1600000000''), (''tid'', JString ''55'')] :: rat json"
  let ?m = "[(''price'', JString ''x''), (''amount'', JString ''1''),
                    (''date'', JString ''1600000000''), (''tid'', JString ''56'')]
              :: (string \<times> rat json) list"
  let ?post = "[JObject [(''price'', JString ''10''), (''amount'', JString ''1''),
                    (''date'', JString ''1600000000''), (''tid'', JString ''57'')]] :: rat json list"
  let ?wire = \<open>''[{"price":"10","amount":"1","date":"1600000000","tid":"55"},{"price":"x","amount":"1","date":"1600000000","tid":"56"},{"price":"10","amount":"1","date":"1600000000","tid":"57"}]''\<close>
  let ?um = "unmarshalTable [(?wire, [?good] @ JObject ?m # ?post)]"
  let ?t = "\<lparr>TradeTime = \<lparr>sec = 1600000000, nsec = 0\<rparr>, TradeID = ''55'',
               TradePrice = 10 :: rat, TradeAmount = 1\<rparr>"
  have um: "?um ?wire = Inr ([?good] @ JObject ?m # ?post)"
    by (simp add: unmarshalTable_def)
  have pre: "list_all2 (\<lambda>x tr. tradeOf decimal x = Return (Inr tr)) [?good] [?t]"
    by (simp add: tradeOf_def lookup_def decimal_examples ParseInt_examples time_Unix_def)
  have f: "lookup ?m ''price'' = JString ''x''" "lookup ?m ''amount'' = JString ''1''"
    "lookup ?m ''date'' = JString ''1600000000''"
    by (simp_all add: lookup_def)
  have bad: "decimal ''x'' = Inl (NumError ''ParseFloat'' ''x'' ErrSyntax)
      \<or> (decimal ''x'' = Inr 0 \<and> decimal ''1'' = Inl (NumError ''ParseFloat'' ''x'' ErrSyntax))
      \<or> (decimal ''x'' = Inr 0 \<and> decimal ''1'' = Inr 0
           \<and> ParseInt ''1600000000'' = Inl (NumError ''ParseFloat'' ''x'' ErrSyntax))"
    by (simp add: decimal_examples)
  show ?thesis
    using formatTrades_parse_failure [where umList = ?um and body = ?wire
        and pre = "[?good]" and m = ?m and post = ?post and pf = decimal,
        OF um pre f bad]
    by (simp add: zeroTrade_def zeroTime_def)
qed

section \<open>The read loop and Close\<close>

lemma pushError_fields:
  "done_chan (pushError line err c) = done_chan c"
  "ws_closed (pushError line err c) = ws_closed c"
  "slept (pushError line err c) = slept c"
  "Stream (pushError line err c) = Stream c"
  by (simp_all add: pushError_def trySend_def)

lemma pushError_queue:
  "Errors (pushError line err c) = (if Errors c = [] then [err] else Errors c)"
  by (cases "Errors c") (simp_all add: pushError_def trySend_def)

lemma Close_fields:
  "ws_closed (Close c) = ws_closed c"
  "Errors (Close c) = Errors c"
  "Stream (Close c) = Stream c"
  "slept (Close c) = slept c"
  by (simp_all add: Close_def trySend_def)

lemma Close_done_chan:
  "done_chan (Close c) = (if done_chan c = [] then [True] else done_chan c)"
  by (cases "done_chan c") (simp_all add: Close_def trySend_def)

lemma Close_repeated:
  "done_chan c = [] \<Longrightarrow> done_chan ((Close ^^ Suc n) c) = [True]"
  by (induction n) (simp_all add: Close_done_chan)

lemma readIter_invariant:
  assumes "length (done_chan c) \<le> 1" and "ws_closed c = 0"
    and "readIter um fr recv c = (st, c')"
  shows "length (done_chan c') \<le> 1 \<and> ws_closed c' = (if st = Exited then 1 else 0)"
  using assms
  by (cases "done_chan c"; cases fr)
     (auto simp: readIter_def Let_def pushError_fields split: if_splits sum.splits)

lemma run_invariant:
  assumes "length (done_chan c) \<le> 1" and "ws_closed c = (if st = Exited then 1 else 0)"
    and "run um cs (st, c) = (st', c')"
  shows "length (done_chan c') \<le> 1 \<and> ws_closed c' = (if st' = Exited then 1 else 0)"
  using assms
proof (induction cs arbitrary: st c)
  case Nil
  then show ?case by simp
next
  case (Cons x cs)
  show ?case
  proof (cases x)
    case CallClose
    have "length (done_chan (Close c)) \<le> 1"
      using Cons.prems(1) by (simp add: Close_done_chan)
    moreover have "ws_closed (Close c) = (if st = Exited then 1 else 0)"
      using Cons.prems(2) by (simp add: Close_fields)
    moreover have "run um cs (st, Close c) = (st', c')"
      using Cons.prems(3) CallClose by simp
    ultimately show ?thesis by (rule Cons.IH)
  next
    case (Iterate fr recv)
    show ?thesis
    proof (cases "st = Running")
      case True
      obtain st1 c1 where it: "readIter um fr recv c = (st1, c1)"
        by (cases "readIter um fr recv c")
      have w: "ws_closed c = 0" using Cons.prems(2) True by simp
      have inv: "length (done_chan c1) \<le> 1 \<and> ws_closed c1 = (if st1 = Exited then 1 else 0)"
        by (rule readIter_invariant [OF Cons.prems(1) w it])
      have "run um cs (st1, c1) = (st', c')"
        using Cons.prems(3) Iterate True it by simp
      with inv show ?thesis using Cons.IH by blast
    next
      case False
      then have "run um cs (st, c) = (st', c')"
        using Cons.prems(3) Iterate by simp
      with Cons.prems(1,2) show ?thesis using Cons.IH by blast
    qed
  qed
qed

lemma readLoop_retries:
  assumes "Temporary err \<noteq> Some False" and "done_chan c = []"
  shows "fst (readLoop um (replicate n (ReadError err, recv)) c) = Running
       \<and> slept (snd (readLoop um (replicate n (ReadError err, recv)) c)) = slept c + n * readMsgTimeout
       \<and> ws_closed (snd (readLoop um (replicate n (ReadError err, recv)) c)) = ws_closed c"
  using assms(2)
proof (induction n arbitrary: c)
  case 0
  then show ?case by simp
next
  case (Suc n)
  let ?c1 = "(pushError (CantWriteRead err) err c)\<lparr>slept := slept c + readMsgTimeout\<rparr>"
  have step: "readIter um (ReadError err) recv c = (Running, ?c1)"
    using assms(1) Suc.prems by (simp add: readIter_def Let_def pushError_fields)
  have d: "done_chan ?c1 = []"
    using Suc.prems by (simp add: pushError_fields)
  show ?case
    using Suc.IH [OF d] by (simp add: step pushError_fields)
qed

subsection \<open>The client of src/websocket.go\<close>

text \<open>
  In src/websocket.go an iteration that meets a read failure or a decode failure is
  never blocked by the push to \<^verbatim>\<open>Errors\<close>: an empty queue takes the error, a queue
  that holds an undelivered error keeps it and the new error is discarded; after a
  decode failure the loop goes on.
\<close>

theorem push_to_Errors_never_blocks:
  assumes "done_chan c = []"
    and "fr = ReadError err \<or> (fr = Message message \<and> um message = Inl err)"
  shows "fst (readIter um fr recv c) \<noteq> Blocked
       \<and> (Errors c = [] \<longrightarrow> Errors (snd (readIter um fr recv c)) = [err])
       \<and> (Errors c \<noteq> [] \<longrightarrow> Errors (snd (readIter um fr recv c)) = Errors c)
       \<and> (fr = Message message \<longrightarrow> fst (readIter um fr recv c) = Running)"
  using assms
  by (auto simp: readIter_def Let_def pushError_queue split: if_splits)

text \<open>
  In src/websocket.go a read failure whose \<^verbatim>\<open>Temporary()\<close> is false ends the loop
  (and closes the connection) without a sleep; every other read failure, one without
  the method included, sleeps 100 ms and continues, any number of times in a row.
\<close>

theorem read_failure_retry_or_stop:
  assumes "done_chan c = []"
  shows "(Temporary err = Some False
            \<longrightarrow> fst (readIter um (ReadError err) recv c) = Exited
                \<and> ws_closed (snd (readIter um (ReadError err) recv c)) = Suc (ws_closed c)
                \<and> slept (snd (readIter um (ReadError err) recv c)) = slept c)
       \<and> (Temporary err \<noteq> Some False
            \<longrightarrow> fst (readIter um (ReadError err) recv c) = Running
                \<and> slept (snd (readIter um (ReadError err) recv c)) = slept c + 100
                \<and> ws_closed (snd (readIter um (ReadError err) recv c)) = ws_closed c
                \<and> (\<forall>n. fst (readLoop um (replicate n (ReadError err, recv)) c) = Running
                       \<and> slept (snd (readLoop um (replicate n (ReadError err, recv)) c))
                           = slept c + n * 100))"
  using assms readLoop_retries [of err c um _ recv]
  by (auto simp: readIter_def Let_def pushError_fields readMsgTimeout_def)

text \<open>
  In src/websocket.go, on the client \<^verbatim>\<open>NewWsClient\<close> returns: any number of calls of
  \<^verbatim>\<open>Close\<close> leaves exactly one signal in the slot of \<^verbatim>\<open>done\<close>; \<^verbatim>\<open>Close\<close>
  changes neither the connection nor the queues; the iteration that follows a call
  observes the signal, returns and closes the connection; and under every interleaving
  of calls of \<^verbatim>\<open>Close\<close> with iterations of the loop the connection has been closed
  exactly once if the loop has returned and not at all otherwise.
\<close>

theorem Close_signals_shutdown_once:
  assumes "NewWsClient None = Inr c0"
  shows "(\<forall>n. done_chan ((Close ^^ Suc n) c0) = [True]
            \<and> ws_closed ((Close ^^ Suc n) c0) = 0)
       \<and> done_chan (Close c) = (if done_chan c = [] then [True] else done_chan c)
       \<and> ws_closed (Close c) = ws_closed c
       \<and> Errors (Close c) = Errors c
       \<and> Stream (Close c) = Stream c
       \<and> readIter um fr recv (Close c)
           = (Exited, (Close c)\<lparr>done_chan := tl (done_chan (Close c)),
                                ws_closed := Suc (ws_closed c)\<rparr>)
       \<and> (\<forall>cs st c'. run um cs (Running, c0) = (st, c')
            \<longrightarrow> length (done_chan c') \<le> 1 \<and> ws_closed c' = (if st = Exited then 1 else 0))"
proof -
  from assms have c0: "done_chan c0 = []" "ws_closed c0 = 0"
    by (auto simp: NewWsClient_def)
  have rep: "\<forall>n. done_chan ((Close ^^ Suc n) c0) = [True] \<and> ws_closed ((Close ^^ Suc n) c0) = 0"
  proof
    fix n
    have "ws_closed ((Close ^^ k) c0) = 0" for k
      by (induction k) (simp_all add: c0 Close_fields)
    then show "done_chan ((Close ^^ Suc n) c0) = [True] \<and> ws_closed ((Close ^^ Suc n) c0) = 0"
      using Close_repeated [OF c0(1)] by blast
  qed
  have obs: "readIter um fr recv (Close c)
           = (Exited, (Close c)\<lparr>done_chan := tl (done_chan (Close c)),
                                ws_closed := Suc (ws_closed c)\<rparr>)"
    by (cases "done_chan (Close c)") (simp_all add: readIter_def Close_fields Close_done_chan split: if_splits)
  have inv: "\<forall>cs st c'. run um cs (Running, c0) = (st, c')
            \<longrightarrow> length (done_chan c') \<le> 1 \<and> ws_closed c' = (if st = Exited then 1 else 0)"
    using run_invariant [of c0 Running um] c0 by simp
  show ?thesis
    using rep obs inv by (simp add: Close_fields Close_done_chan)
qed

subsection \<open>The client of src/unnamed/part_001\<close>

text \<open>
  Claim C6 fails in the second variant of the client: its push is a plain send on an
  unbuffered channel, so with no receiver waiting on \<^verbatim>\<open>Errors\<close> the loop is blocked
  in the push, after a read failure and after a decode failure alike.
\<close>

theorem blocking_push_in_second_variant:
  "readIter_v1 um (ReadError err) False (c\<lparr>done_chan := []\<rparr>) = (Blocked, c\<lparr>done_chan := []\<rparr>)
   \<and> readIter_v1 (\<lambda>message. Inl err) (Message message) False (c\<lparr>done_chan := []\<rparr>)
       = (Blocked, c\<lparr>done_chan := []\<rparr>)"
  by (simp add: readIter_v1_def)

text \<open>
  Claim C7 fails in the second variant of the client: it has no retry classification
  and no sleep. After a read failure whose \<^verbatim>\<open>Temporary()\<close> is false the loop keeps
  running with the connection open, and after a retryable one it continues at once.
\<close>

theorem no_retry_classification_in_second_variant:
  "readIter_v1 um (ReadError (TransportError msg (Some False))) True (c\<lparr>done_chan := []\<rparr>)
     = (Running, c\<lparr>done_chan := [], Errors := Errors c @ [TransportError msg (Some False)]\<rparr>)
   \<and> slept (snd (readIter_v1 um (ReadError (TransportError msg (Some True))) True
               (c\<lparr>done_chan := []\<rparr>))) = slept c
   \<and> ws_closed (snd (readIter_v1 um (ReadError (TransportError msg (Some False))) True
               (c\<lparr>done_chan := []\<rparr>))) = ws_closed c"
  by (simp add: readIter_v1_def)

text \<open>
  Claim C8 fails in the second variant of the client: \<^verbatim>\<open>Close\<close> is a plain send on
  \<^verbatim>\<open>done\<close>. The first call fills the slot; a second call before the loop has taken
  the signal blocks.
\<close>

theorem second_Close_blocks_in_second_variant:
  "Close_v1 (c\<lparr>done_chan := []\<rparr>) = Some (c\<lparr>done_chan := [True]\<rparr>)
   \<and> Close_v1 (c\<lparr>done_chan := [True]\<rparr>) = None"
  by (simp add: Close_v1_def trySend_def)

section \<open>The orchestrator\<close>

lemma stop_signal_ignored_ws:
  "Delivering_ws mar um pf symb (replicate n StopReady @ rs) acts
     = Delivering_ws mar um pf symb rs acts"
  by (induction n) simp_all

text \<open>
  Claim C2 fails in the variant over \<^verbatim>\<open>WsClient\<close> (src/unnamed/part_000), whose
  \<^verbatim>\<open>case <-stopChan:\<close> has an empty body: however many stop signals arrive, the
  orchestrator stays in its loop, waiting in \<^verbatim>\<open>select\<close>, and has neither
  unsubscribed nor closed the client nor returned. An error from \<^verbatim>\<open>Errors\<close> does
  end it there: it unsubscribes, closes the client once and returns nil. In the variant
  over the pusher client (src/bitstamp.go) the stop signal ends the loop.
\<close>

theorem stop_signal_does_not_terminate:
  "Delivering_ws mar um pf symb (replicate n StopReady) acts = (acts, Waiting)
   \<and> SubscribeOrderBook_ws None mar um pf symb (replicate n StopReady)
       = ([Subscribed (''order_book_'' @ symb)], Waiting)
   \<and> Delivering_ws mar um pf symb (replicate n StopReady @ ErrorsReady e # rs) acts
       = (acts @ [Unsubscribed (''order_book_'' @ symb), Closed], Returned None)
   \<and> Delivering um pf (StopSignal # ps) pacts
       = (pacts @ [Unbound ''data'', Unsubscribed ''order_book'', Closed], Returned None)"
  using stop_signal_ignored_ws [of mar um pf symb n "[]"]
  by (simp add: SubscribeOrderBook_ws_def NewWsClient_def stop_signal_ignored_ws)

text \<open>
  Claim C9, as stated, fails: not every decode failure is an error the decode routine
  returns. A streamed event without a bids field makes the routine panic in the unchecked
  assertion, and one whose bids element has a single entry makes it panic in the
  indexing; the panic goes through the orchestrator's loop, which ends there instead of
  dropping the event. On the REST path the same body makes \<^verbatim>\<open>GetOrderBook\<close> panic
  instead of returning an error.
\<close>

theorem decode_panic_is_fatal_counterexample:
  \<open>Delivering
     (unmarshalTable [(''{"asks":[]}'', [(''asks'', JArray [])])])
     decimal
     [DataReady ''{"asks":[]}'' \<lparr>sec = 1700000000, nsec = 0\<rparr> True]
     [Subscribed ''order_book'', Bound ''data'']
   = ([Subscribed ''order_book'', Bound ''data''],
      Crashed (InterfaceConversion ''[]interface {}''))
   \<and> Delivering_ws Inr
     (unmarshalTable
        [(''{"bids":[["1"]],"asks":[]}'',
          [(''bids'', JArray [JArray [JString ''1'']]), (''asks'', JArray [])])])
     decimal ''btcusd''
     [StreamReady \<lparr>Event = ''data'', Channel = ''order_book_btcusd'',
                   Data = ''{"bids":[["1"]],"asks":[]}''\<rparr>
        \<lparr>sec = 1700000000, nsec = 0\<rparr> True]
     [Subscribed ''order_book_btcusd'']
   = ([Subscribed ''order_book_btcusd''], Crashed (IndexOutOfRange 1 1))
   \<and> GetOrderBook
     (unmarshalTable
        [(''https://www.bitstamp.net/api/v2/order_book/btcusd'', ''{"asks":[]}'')])
     (unmarshalTable [(''{"asks":[]}'', [(''asks'', JArray [])])])
     decimal \<lparr>sec = 1700000000, nsec = 0\<rparr> ''btcusd''
   = Panic (InterfaceConversion ''[]interface {}'')\<close>
  by (simp add: parseOrderBook_def parseOrderBook_ws_def GetOrderBook_def api_get_def
      API_URL_def unmarshalTable_def parseTimestamp_def Unix_def lookup_def parseSides_def
      index_def decimal_examples)

text \<open>
  Claim C9, amended. When the decode routine returns an error for a streamed event
  (malformed JSON, an invalid timestamp, a price or amount that \<^verbatim>\<open>ParseFloat\<close>
  rejects), the orchestrator, in both variants, goes on with the next case of its
  \<^verbatim>\<open>select\<close> exactly as if the event had not arrived: nothing is sent, printed or
  returned. When it returns an error for the body of the REST response,
  \<^verbatim>\<open>GetOrderBook\<close> returns that error and no order book.
\<close>

theorem decode_error_dropped_when_streamed_returned_by_rest:
  "(Event ev = ''data'' \<and> mar (Data ev) = Inr b
      \<and> parseOrderBook_ws um pf now b = Return (ob, Some err)
      \<longrightarrow> Delivering_ws mar um pf symb (StreamReady ev now recv # rs) acts
            = Delivering_ws mar um pf symb rs acts)
   \<and> (parseOrderBook um pf now d = Return (ob, Some err)
      \<longrightarrow> Delivering um pf (DataReady d now recv # ps) acts = Delivering um pf ps acts)
   \<and> (httpGet (API_URL @ ''/order_book/'' @ symbol) = Inr body
      \<and> parseOrderBook um pf now body = Return (ob, Some err)
      \<longrightarrow> GetOrderBook httpGet um pf now symbol = Return (None, Some err))"
  by (auto simp: GetOrderBook_def api_get_def dest: parseOrderBook_error_no_book
      split: option.splits)

theorem decode_error_dropped_when_streamed_returned_by_rest_witness:
  \<open>Delivering_ws Inr
     (unmarshalTable
        [(''{"bids":[["x","1"]],"asks":[]}'',
          [(''bids'', JArray [JArray [JString ''x'', JString ''1'']]), (''asks'', JArray [])])])
     decimal ''btcusd''
     [StreamReady \<lparr>Event = ''data'', Channel = ''order_book_btcusd'',
                   Data = ''{"bids":[["x","1"]],"asks":[]}''\<rparr>
        \<lparr>sec = 1700000000, nsec = 0\<rparr> True]
     [Subscribed ''order_book_btcusd'']
   = ([Subscribed ''order_book_btcusd''], Waiting)
   \<and> Delivering
     (unmarshalTable
        [(''{"bids":[["x","1"]],"asks":[]}'',
          [(''bids'', JArray [JArray [JString ''x'', JString ''1'']]), (''asks'', JArray [])])])
     decimal
     [DataReady ''{"bids":[["x","1"]],"asks":[]}'' \<lparr>sec = 1700000000, nsec = 0\<rparr> True]
     [Subscribed ''order_book'', Bound ''data'']
   = ([Subscribed ''order_book'', Bound ''data''], Waiting)
   \<and> GetOrderBook
     (unmarshalTable
        [(''https://www.bitstamp.net/api/v2/order_book/btcusd'', ''{"bids":[["x","1"]],"asks":[]}'')])
     (unmarshalTable
        [(''{"bids":[["x","1"]],"asks":[]}'',
          [(''bids'', JArray [JArray [JString ''x'', JString ''1'']]), (''asks'', JArray [])])])
     decimal \<lparr>sec = 1700000000, nsec = 0\<rparr> ''btcusd''
   = Return (None, Some (Wrapped (NumError ''ParseFloat'' ''x'' ErrSyntax) ''bids parsing error''))\<close>
proof -
  let ?wire = \<open>''{"bids":[["x","1"]],"asks":[]}''\<close>
  let ?doc = "[(''bids'', JArray [JArray [JString ''x'', JString ''1'']]), (''asks'', JArray [])]
                :: (string \<times> rat json) list"
  let ?um = "unmarshalTable [(?wire, ?doc)]"
  let ?get = "unmarshalTable [(''https://www.bitstamp.net/api/v2/order_book/btcusd'', ?wire)]"
  let ?now = "\<lparr>sec = 1700000000, nsec = 0\<rparr>"
  let ?ev = "\<lparr>Event = ''data'', Channel = ''order_book_btcusd'', Data = ?wire\<rparr>"
  let ?err = "Wrapped (NumError ''ParseFloat'' ''x'' ErrSyntax) ''bids parsing error''"
  have p: "parseOrderBook ?um decimal ?now ?wire = Return (None, Some ?err)"
    by (simp add: parseOrderBook_def unmarshalTable_def parseTimestamp_def Unix_def lookup_def
        parseSides_def index_def decimal_examples)
  have pw: "parseOrderBook_ws ?um decimal ?now ?wire = Return (None, Some ?err)"
    by (simp add: parseOrderBook_ws_def unmarshalTable_def parseTimestamp_def Unix_def lookup_def
        parseSides_def index_def decimal_examples)
  have g: "?get (API_URL @ ''/order_book/'' @ ''btcusd'') = Inr ?wire"
    by (simp add: unmarshalTable_def API_URL_def)
  have "Delivering_ws Inr ?um decimal ''btcusd'' (StreamReady ?ev ?now True # [])
          [Subscribed ''order_book_btcusd'']
        = Delivering_ws Inr ?um decimal ''btcusd'' [] [Subscribed ''order_book_btcusd'']"
    and "Delivering ?um decimal (DataReady ?wire ?now True # [])
          [Subscribed ''order_book'', Bound ''data'']
        = Delivering ?um decimal [] [Subscribed ''order_book'', Bound ''data'']"
    and "GetOrderBook ?get ?um decimal ?now ''btcusd'' = Return (None, Some ?err)"
    using decode_error_dropped_when_streamed_returned_by_rest
      [where ev = ?ev and mar = Inr and b = ?wire and um = ?um and pf = decimal and now = ?now
         and ob = None and err = ?err and d = ?wire and httpGet = ?get and symbol = "''btcusd''"
         and body = ?wire]
      p pw g
    by simp_all
  then show ?thesis by simp
qed

end
